theory Spec2Isabelle
  imports Complex_Main "HOL-Library.Log_Nat"
begin

section \<open>Python values\<close>

text \<open>
  The program is a Flask server (\<^verbatim>\<open>app.py\<close>) that tracks mobile-money payments in an
  in-memory dictionary. It is embedded function by function. Strings are \<^typ>\<open>string\<close>:
  a character stands for a code point below 256, which is exactly what a WSGI header value
  or a raw request body holds. JSON payloads are typed after the shapes the code reads
  (the payload documented at the top of \<^verbatim>\<open>app.py\<close>): a field the code reads with
  \<^verbatim>\<open>.get\<close> is an option, \<open>None\<close> when the key is missing. Values the code
  coerces or passes on untouched (the amount, the phone of \<^verbatim>\<open>/pay\<close>) are arbitrary
  JSON values.
\<close>

datatype exn = JSONDecodeError | UnicodeDecodeError | ValueError | TypeError | OverflowError

datatype pyfloat = Finite rat | PosInf | NegInf | NaN

datatype json =
    JNull
  | JBool bool
  | JInt int
  | JFloat pyfloat
  | JStr string
  | JList "json list"
  | JObj "(string \<times> json) list"

text \<open>Python truthiness, as used by \<^verbatim>\<open>not x\<close> and \<^verbatim>\<open>x or y\<close>.\<close>

fun truthy :: "json \<Rightarrow> bool" where
  "truthy JNull = False"
| "truthy (JBool b) = b"
| "truthy (JInt i) = (i \<noteq> 0)"
| "truthy (JFloat f) = (f \<noteq> Finite 0)"
| "truthy (JStr s) = (s \<noteq> [])"
| "truthy (JList xs) = (xs \<noteq> [])"
| "truthy (JObj kvs) = (kvs \<noteq> [])"

text \<open>\<^verbatim>\<open>a or b\<close> on strings, and \<^verbatim>\<open>d.get(k, default)\<close> on an optional field.\<close>

definition or_str :: "string \<Rightarrow> string \<Rightarrow> string" where
  "or_str a b = (if a \<noteq> [] then a else b)"

definition get_default :: "'a option \<Rightarrow> 'a \<Rightarrow> 'a" where
  "get_default field d = (case field of None \<Rightarrow> d | Some v \<Rightarrow> v)"

subsection \<open>String methods\<close>

text \<open>
  \<^verbatim>\<open>str.isspace\<close>, \<^verbatim>\<open>str.lower\<close>, \<^verbatim>\<open>str.strip\<close> and \<^verbatim>\<open>str.lstrip\<close> on code points
  below 256: the white space of Python is 9 to 13, 28 to 32, 133 and 160, and the upper
  case letters are A to Z and 192 to 222 without 215.
\<close>

definition isspace :: "char \<Rightarrow> bool" where
  "isspace c = ((of_char c :: nat) \<in> {9, 10, 11, 12, 13, 28, 29, 30, 31, 32, 133, 160})"

definition isupper :: "char \<Rightarrow> bool" where
  "isupper c =
     (let n = (of_char c :: nat)
      in (65 \<le> n \<and> n \<le> 90) \<or> (192 \<le> n \<and> n \<le> 222 \<and> n \<noteq> 215))"

definition lower_char :: "char \<Rightarrow> char" where
  "lower_char c = (if isupper c then char_of ((of_char c :: nat) + 32) else c)"

definition lower :: "string \<Rightarrow> string" where
  "lower s = map lower_char s"

definition lstrip :: "string \<Rightarrow> string" where
  "lstrip s = dropWhile isspace s"

definition rstrip :: "string \<Rightarrow> string" where
  "rstrip s = rev (dropWhile isspace (rev s))"

definition strip :: "string \<Rightarrow> string" where
  "strip s = rstrip (lstrip s)"

definition lstrip_chars :: "string \<Rightarrow> string \<Rightarrow> string" where
  "lstrip_chars cs s = dropWhile (\<lambda>c. c \<in> set cs) s"

definition startswith :: "string \<Rightarrow> string \<Rightarrow> bool" where
  "startswith s p = (take (length p) s = p)"

definition isascii :: "string \<Rightarrow> bool" where
  "isascii s = list_all (\<lambda>c. (of_char c :: nat) < 128) s"

section \<open>Status normalizer\<close>

text \<open>
  \<^verbatim>\<open>map_lipana_status(raw)\<close>: \<^verbatim>\<open>raw = (raw or "").lower().strip()\<close>, then the two
  membership tests.
\<close>

definition map_lipana_status :: "string \<Rightarrow> string" where
  "map_lipana_status raw =
     (let raw = strip (lower (or_str raw ''''))
      in if raw \<in> set [''success'', ''completed''] then ''success''
         else if raw \<in> set [''failed'', ''failure'', ''cancelled'', ''canceled''] then ''failed''
         else ''pending'')"

section \<open>Remote status fetcher\<close>

text \<open>
  One transaction of the provider's list, one page of it, and the provider as the fetcher
  sees it: the answer to \<^verbatim>\<open>requests.get(.../transactions, page=p)\<close> is either an
  exception of the \<^verbatim>\<open>requests\<close> library or a response with a status code and a body.
  The body of a response is a JSON object; its \<^verbatim>\<open>data\<close> field is a list of
  transactions, an object (with a \<^verbatim>\<open>data\<close> field of its own), or anything else.
\<close>

record tx =
  tx_transactionId :: "string option"
  tx_status :: "string option"

datatype data_json = DataList "tx list" | DataDict "data_json option" | DataOther

record pagination =
  pg_pages :: "int option"

record page_body =
  body_data :: "data_json option"
  body_pagination :: "pagination option"

datatype request_exception = Timeout | ConnectionError

record http_response =
  status_code :: nat
  resp_json :: page_body

type_synonym remote = "nat \<Rightarrow> request_exception + http_response"

text \<open>
  \<^verbatim>\<open>Response.ok\<close>: \<^verbatim>\<open>raise_for_status\<close> does not raise, that is, the status code
  is not from 400 to 599.
\<close>

definition ok :: "http_response \<Rightarrow> bool" where
  "ok resp = (\<not> (400 \<le> status_code resp \<and> status_code resp < 600))"

text \<open>
  Lines 144 to 149: \<^verbatim>\<open>items = body.get("data", [])\<close>, unnested once when it is an
  object.
\<close>

definition page_items :: "page_body \<Rightarrow> data_json" where
  "page_items body =
     (let items = get_default (body_data body) (DataList [])
      in case items of
           DataDict inner \<Rightarrow> get_default inner (DataList [])
         | _ \<Rightarrow> items)"

text \<open>
  Lines 155 to 160, the scan of one page: the raw status of the first transaction whose
  \<^verbatim>\<open>transactionId\<close> is the requested one.
\<close>

fun scan_items :: "tx list \<Rightarrow> string \<Rightarrow> string option" where
  "scan_items [] transaction_id = None"
| "scan_items (t # ts) transaction_id =
     (if tx_transactionId t = Some transaction_id
      then Some (get_default (tx_status t) [])
      else scan_items ts transaction_id)"

text \<open>Lines 163 and 164: the total number of pages the provider reports, 1 by default.\<close>

definition total_pages :: "page_body \<Rightarrow> int" where
  "total_pages body =
     get_default (pg_pages (get_default (body_pagination body) \<lparr>pg_pages = None\<rparr>)) 1"

text \<open>
  The loop \<^verbatim>\<open>while page <= 3\<close> with everything the \<^verbatim>\<open>try\<close> block does. The result
  is the list of the pages requested, in order, and what the block does: raise the exception
  of \<^verbatim>\<open>requests.get\<close>, or return a status or \<open>None\<close>.
\<close>

function fetch_pages ::
  "remote \<Rightarrow> string \<Rightarrow> nat \<Rightarrow> nat list \<times> (request_exception + string option)" where
  "fetch_pages remote transaction_id page =
     (if page \<le> 3 then
        (case remote page of
           Inl exc \<Rightarrow> ([page], Inl exc)
         | Inr resp \<Rightarrow>
             if \<not> ok resp then ([page], Inr None)
             else
               (case page_items (resp_json resp) of
                  DataList (t # ts) \<Rightarrow>
                    (case scan_items (t # ts) transaction_id of
                       Some raw_status \<Rightarrow> ([page], Inr (Some (map_lipana_status raw_status)))
                     | None \<Rightarrow>
                         if int page \<ge> total_pages (resp_json resp) then ([page], Inr None)
                         else
                           (let (pages, r) = fetch_pages remote transaction_id (page + 1)
                            in (page # pages, r)))
                | _ \<Rightarrow> ([page], Inr None)))
      else ([], Inr None))"
  by pat_completeness auto
termination
  by (relation "measure (\<lambda>(remote, transaction_id, page). 4 - page)") auto

text \<open>
  \<^verbatim>\<open>fetch_lipana_status\<close>: the \<^verbatim>\<open>try\<close> block from page 1, and the handler
  \<^verbatim>\<open>except requests.exceptions.RequestException: return None\<close>.
\<close>

definition fetch_lipana_status :: "remote \<Rightarrow> string \<Rightarrow> nat list \<times> string option" where
  "fetch_lipana_status remote transaction_id =
     (case fetch_pages remote transaction_id 1 of
        (pages, Inl exc) \<Rightarrow> (pages, None)
      | (pages, Inr r) \<Rightarrow> (pages, r))"

section \<open>Transaction store and HTTP responses\<close>

text \<open>
  \<^verbatim>\<open>payment_store: dict[str, dict]\<close> maps a transaction id to a record with the keys
  \<^verbatim>\<open>status\<close>, \<^verbatim>\<open>phone\<close> and \<^verbatim>\<open>amount\<close>. A handler returns
  \<^verbatim>\<open>jsonify(...), code\<close>, or raises an exception that nothing catches (Flask then
  answers 500).
\<close>

record payment =
  status :: string
  phone :: string
  amount :: json

type_synonym payment_store = "string \<rightharpoonup> payment"

datatype response = Response nat json

section \<open>Status polling\<close>

text \<open>
  Lines 315 to 329 of \<^verbatim>\<open>check_status\<close>: the poll of the provider while the record is
  pending, and the answer. The record is the object held by the store, so the assignment
  to its status is an update of the store.
\<close>

definition poll_while_pending ::
  "payment_store \<Rightarrow> string \<Rightarrow> payment \<Rightarrow> remote \<Rightarrow> response \<times> payment_store" where
  "poll_while_pending payment_store tracking_id record remote =
     (let record =
        (if status record = ''pending'' then
           (case snd (fetch_lipana_status remote tracking_id) of
              Some live \<Rightarrow> if live \<noteq> ''pending'' then record\<lparr>status := live\<rparr> else record
            | None \<Rightarrow> record)
         else record)
      in (Response 200 (JObj [(''status'', JStr (status record)),
                              (''phone'', JStr (phone record)),
                              (''amount'', amount record)]),
          payment_store(tracking_id \<mapsto> record)))"

text \<open>
  \<^verbatim>\<open>check_status(tracking_id)\<close>. The handler calls the fetcher once or twice;
  \<open>remote1\<close> is the provider as the first call sees it and \<open>remote2\<close> as the second
  call does.
\<close>

definition check_status ::
  "payment_store \<Rightarrow> string \<Rightarrow> remote \<Rightarrow> remote \<Rightarrow> response \<times> payment_store" where
  "check_status payment_store tracking_id remote1 remote2 =
     (case payment_store tracking_id of
        None \<Rightarrow>
          (case snd (fetch_lipana_status remote1 tracking_id) of
             Some live \<Rightarrow>
               (let record = \<lparr>status = live, phone = ''Recovered'', amount = JInt 0\<rparr>
                in poll_while_pending (payment_store(tracking_id \<mapsto> record))
                     tracking_id record remote2)
           | None \<Rightarrow> (Response 404 (JObj [(''status'', JStr ''not_found'')]), payment_store))
      | Some record \<Rightarrow> poll_while_pending payment_store tracking_id record remote1)"

section \<open>Webhook\<close>

text \<open>
  The event of a webhook, as documented at the top of \<^verbatim>\<open>app.py\<close>. The HMAC and the
  JSON decoder are library functions and are taken as parameters: \<open>hmac_sha256_hexdigest\<close>
  gives the hex digest of a message under a key, \<open>json_loads\<close> decodes a body or raises.
\<close>

record event_data =
  ed_transactionId :: "string option"
  ed_transaction_id :: "string option"
  ed_status :: "string option"
  ed_phone :: "string option"
  ed_amount :: "json option"

record event =
  ev_event :: "string option"
  ev_data :: "event_data option"

record webhook_env =
  LIPANA_WEBHOOK_SECRET :: string
  hmac_sha256_hexdigest :: "string \<Rightarrow> string \<Rightarrow> string"
  json_loads :: "string \<Rightarrow> exn + event"

text \<open>
  \<^verbatim>\<open>hmac.compare_digest\<close> on two \<^verbatim>\<open>str\<close>: it compares strings of ASCII characters
  and raises \<^verbatim>\<open>TypeError\<close> on any other.
\<close>

definition compare_digest :: "string \<Rightarrow> string \<Rightarrow> exn + bool" where
  "compare_digest a b = (if isascii a \<and> isascii b then Inr (a = b) else Inl TypeError)"

definition verify_webhook_signature :: "webhook_env \<Rightarrow> string \<Rightarrow> string \<Rightarrow> exn + bool" where
  "verify_webhook_signature env payload_bytes signature =
     (let expected = hmac_sha256_hexdigest env (LIPANA_WEBHOOK_SECRET env) payload_bytes
      in compare_digest signature expected)"

text \<open>Lines 392 to 403: the update of the store.\<close>

definition update_payment_store ::
  "payment_store \<Rightarrow> string \<Rightarrow> string \<Rightarrow> event_data \<Rightarrow> payment_store" where
  "update_payment_store payment_store transaction_id resolved event_data =
     (case payment_store transaction_id of
        Some record \<Rightarrow> payment_store(transaction_id \<mapsto> record\<lparr>status := resolved\<rparr>)
      | None \<Rightarrow>
          payment_store(transaction_id \<mapsto>
            \<lparr>status = resolved,
             phone = lstrip_chars ''+'' (get_default (ed_phone event_data) []),
             amount = get_default (ed_amount event_data) JNull\<rparr>))"

text \<open>
  Lines 379 to 403, what the handler does with a decoded event:
  \<^verbatim>\<open>event_data = data.get("data", {})\<close>, the transaction id
  \<^verbatim>\<open>event_data.get("transactionId") or event_data.get("transaction_id", "")\<close>, the
  status \<^verbatim>\<open>map_lipana_status(event_data.get("status", ""))\<close>, and the update.
\<close>

definition event_data_of :: "event \<Rightarrow> event_data" where
  "event_data_of data =
     get_default (ev_data data)
       \<lparr>ed_transactionId = None, ed_transaction_id = None, ed_status = None,
        ed_phone = None, ed_amount = None\<rparr>"

definition event_transaction_id :: "event \<Rightarrow> string" where
  "event_transaction_id data =
     or_str (get_default (ed_transactionId (event_data_of data)) [])
       (get_default (ed_transaction_id (event_data_of data)) [])"

definition event_status :: "event \<Rightarrow> string" where
  "event_status data = map_lipana_status (get_default (ed_status (event_data_of data)) [])"

definition apply_event :: "payment_store \<Rightarrow> event \<Rightarrow> payment_store" where
  "apply_event payment_store data =
     (let event_data = event_data_of data;
          tid = event_transaction_id data;
          resolved = event_status data
      in update_payment_store payment_store tid resolved event_data)"

text \<open>
  \<^verbatim>\<open>webhook()\<close>: the header \<^verbatim>\<open>X-Lipana-Signature\<close> (\<open>None\<close> when the request has
  none) and the raw body.
\<close>

definition webhook ::
  "webhook_env \<Rightarrow> payment_store \<Rightarrow> string option \<Rightarrow> string
     \<Rightarrow> (exn + response) \<times> payment_store" where
  "webhook env payment_store header raw_payload =
     (let signature = get_default header []
      in if signature = [] then
           (Inr (Response 401 (JObj [(''error'', JStr ''Missing signature'')])), payment_store)
         else
           (case verify_webhook_signature env raw_payload signature of
              Inl exc \<Rightarrow> (Inl exc, payment_store)
            | Inr False \<Rightarrow>
                (Inr (Response 401 (JObj [(''error'', JStr ''Invalid signature'')])),
                 payment_store)
            | Inr True \<Rightarrow>
                (case json_loads env raw_payload of
                   Inl JSONDecodeError \<Rightarrow>
                     (Inr (Response 400 (JObj [(''error'', JStr ''Invalid JSON'')])),
                      payment_store)
                 | Inl exc \<Rightarrow> (Inl exc, payment_store)
                 | Inr data \<Rightarrow>
                     (Inr (Response 200 (JObj [(''received'', JBool True)])),
                      apply_event payment_store data))))"

section \<open>Payment initiation\<close>

text \<open>
  The builtins \<^verbatim>\<open>float\<close> and \<^verbatim>\<open>int\<close>. \<^verbatim>\<open>float\<close> of an integer rounds to the
  nearest double, ties to even, and raises \<^verbatim>\<open>OverflowError\<close> beyond the largest one;
  \<^verbatim>\<open>float\<close> of a string is a parameter (\<open>None\<close> when it raises
  \<^verbatim>\<open>ValueError\<close>), as is \<^verbatim>\<open>str\<close> of a value that is not a string. \<^verbatim>\<open>int\<close> of a
  float truncates towards zero and raises on an infinity or a NaN.
\<close>

definition float_of_int :: "int \<Rightarrow> exn + pyfloat" where
  "float_of_int i =
     (let a = \<bar>i\<bar>
      in if a < 2 ^ 53 then Inr (Finite (of_int i))
         else
           (let sh = nat (bitlen a - 53);
                q = a div 2 ^ sh;
                r = a mod 2 ^ sh;
                q = (if 2 * r > 2 ^ sh \<or> (2 * r = 2 ^ sh \<and> odd q) then q + 1 else q);
                v = q * 2 ^ sh
            in if v \<ge> 2 ^ 1024 then Inl OverflowError
               else Inr (Finite (of_int (sgn i * v)))))"

record builtins =
  float_of_str :: "string \<Rightarrow> pyfloat option"
  str_of_json :: "json \<Rightarrow> string"

definition py_str :: "builtins \<Rightarrow> json \<Rightarrow> string" where
  "py_str lib v = (case v of JStr s \<Rightarrow> s | _ \<Rightarrow> str_of_json lib v)"

definition py_float :: "builtins \<Rightarrow> json \<Rightarrow> exn + pyfloat" where
  "py_float lib v =
     (case v of
        JFloat f \<Rightarrow> Inr f
      | JInt i \<Rightarrow> float_of_int i
      | JBool b \<Rightarrow> Inr (Finite (if b then 1 else 0))
      | JStr s \<Rightarrow> (case float_of_str lib s of None \<Rightarrow> Inl ValueError | Some f \<Rightarrow> Inr f)
      | _ \<Rightarrow> Inl TypeError)"

definition py_int :: "pyfloat \<Rightarrow> exn + int" where
  "py_int f =
     (case f of
        Finite r \<Rightarrow> Inr (if r \<ge> 0 then \<lfloor>r\<rfloor> else \<lceil>r\<rceil>)
      | PosInf \<Rightarrow> Inl OverflowError
      | NegInf \<Rightarrow> Inl OverflowError
      | NaN \<Rightarrow> Inl ValueError)"

text \<open>\<^verbatim>\<open>int(float(amount))\<close>\<close>

definition int_float :: "builtins \<Rightarrow> json \<Rightarrow> exn + int" where
  "int_float lib v = (case py_float lib v of Inl exc \<Rightarrow> Inl exc | Inr f \<Rightarrow> py_int f)"

text \<open>
  The body of \<^verbatim>\<open>POST /pay\<close> (\<^verbatim>\<open>request.get_json(silent=True) or {}\<close>), and what
  \<^verbatim>\<open>requests.post\<close>, \<^verbatim>\<open>raise_for_status\<close> and \<^verbatim>\<open>resp.json()\<close> give for an
  outbound request: a timeout, another exception of \<^verbatim>\<open>requests\<close>, an HTTP error (with
  the message of its body, if any), or the decoded answer.
\<close>

record pay_body =
  pb_phone :: "json option"
  pb_amount :: "json option"

record id_fields =
  transactionId :: "string option"
  transaction_id :: "string option"
  checkoutRequestID :: "string option"
  checkout_request_id :: "string option"

record push_result =
  pr_data :: "id_fields option"
  pr_top :: id_fields

datatype push_outcome =
    PushTimeout
  | PushRequestException
  | PushHTTPError "string option"
  | PushOk push_result

type_synonym provider = "string \<Rightarrow> int \<Rightarrow> push_outcome"

text \<open>Lines 230 to 233: the phone in the form 254XXXXXXXXX.\<close>

definition normalise_phone :: "string \<Rightarrow> string" where
  "normalise_phone phone0 =
     (let p = lstrip_chars ''0'' (lstrip_chars ''+'' phone0)
      in if \<not> startswith p ''254'' then ''254'' @ p else p)"

text \<open>Lines 263 to 270: the first id field that is not empty.\<close>

definition extract_transaction_id :: "push_result \<Rightarrow> string" where
  "extract_transaction_id result =
     (let data = get_default (pr_data result) (pr_top result)
      in or_str (get_default (transactionId data) [])
           (or_str (get_default (transaction_id data) [])
              (or_str (get_default (checkoutRequestID data) [])
                 (or_str (get_default (checkout_request_id data) []) []))))"

text \<open>
  \<^verbatim>\<open>initiate_payment()\<close>. The result is the answer (or the exception nothing catches),
  the store, and the outbound calls made, each with its phone and amount.
\<close>

definition initiate_payment ::
  "builtins \<Rightarrow> provider \<Rightarrow> payment_store \<Rightarrow> pay_body
     \<Rightarrow> (exn + response) \<times> payment_store \<times> (string \<times> int) list" where
  "initiate_payment lib post_push_stk payment_store body =
     (let phone0 = strip (py_str lib (get_default (pb_phone body) (JStr [])));
          amount0 = get_default (pb_amount body) JNull
      in if phone0 = [] then
           (Inr (Response 400 (JObj [(''error'', JStr ''Phone number is required'')])),
            payment_store, [])
         else if \<not> truthy amount0 then
           (Inr (Response 400 (JObj [(''error'', JStr ''Amount is required'')])),
            payment_store, [])
         else
           (case int_float lib amount0 of
              Inl ValueError \<Rightarrow>
                (Inr (Response 400 (JObj [(''error'', JStr ''Amount must be a valid number'')])),
                 payment_store, [])
            | Inl TypeError \<Rightarrow>
                (Inr (Response 400 (JObj [(''error'', JStr ''Amount must be a valid number'')])),
                 payment_store, [])
            | Inl exc \<Rightarrow> (Inl exc, payment_store, [])
            | Inr n \<Rightarrow>
                if n < 10 then
                  (Inr (Response 400
                     (JObj [(''error'', JStr ''Minimum payment amount is KES 10'')])),
                   payment_store, [])
                else
                  (let p = normalise_phone phone0;
                       calls = [(''+'' @ p, n)]
                   in case post_push_stk (''+'' @ p) n of
                        PushTimeout \<Rightarrow>
                          (Inr (Response 504 (JObj [(''error'',
                             JStr ''Payment gateway timed out. Please try again.'')])),
                           payment_store, calls)
                      | PushHTTPError message \<Rightarrow>
                          (Inr (Response 502 (JObj [(''error'',
                             JStr (get_default message ''Payment initiation failed''))])),
                           payment_store, calls)
                      | PushRequestException \<Rightarrow>
                          (Inr (Response 502 (JObj [(''error'',
                             JStr ''Could not reach payment gateway'')])),
                           payment_store, calls)
                      | PushOk result \<Rightarrow>
                          (let tid = extract_transaction_id result
                           in if tid = [] then
                                (Inr (Response 502 (JObj [(''error'',
                                   JStr ''Unexpected response from payment gateway'')])),
                                 payment_store, calls)
                              else
                                (Inr (Response 200 (JObj [(''trackingId'', JStr tid)])),
                                 payment_store(tid \<mapsto>
                                   \<lparr>status = ''pending'', phone = p, amount = JInt n\<rparr>),
                                 calls)))))"

section \<open>Conditions on the provider's answers\<close>

text \<open>
  An answer fails when \<^verbatim>\<open>requests.get\<close> raises (a timeout, a connection error) or
  when its status is not a success. The scan goes past a page when the answer is a success,
  its items are a list that is not empty and holds no transaction with the requested id,
  and the page number is below the total the provider reports.
\<close>

definition request_fails :: "request_exception + http_response \<Rightarrow> bool" where
  "request_fails answer = (case answer of Inl exc \<Rightarrow> True | Inr resp \<Rightarrow> \<not> ok resp)"

definition scan_continues :: "remote \<Rightarrow> string \<Rightarrow> nat \<Rightarrow> bool" where
  "scan_continues remote tid q =
     (case remote q of
        Inl exc \<Rightarrow> False
      | Inr resp \<Rightarrow>
          ok resp \<and>
          (case page_items (resp_json resp) of
             DataList (t # ts) \<Rightarrow> scan_items (t # ts) tid = None
           | _ \<Rightarrow> False) \<and>
          int q < total_pages (resp_json resp))"

section \<open>Example inputs\<close>

text \<open>
  A provider that reports five pages, with the transaction \<open>txn_42\<close> on page 2, and the
  same provider timing out on page 2.
\<close>

definition example_page :: "tx list \<Rightarrow> request_exception + http_response" where
  "example_page items =
     Inr \<lparr>status_code = 200,
          resp_json = \<lparr>body_data = Some (DataList items),
                       body_pagination = Some \<lparr>pg_pages = Some 5\<rparr>\<rparr>\<rparr>"

definition example_remote :: remote where
  "example_remote page =
     (if page = 2
      then example_page [\<lparr>tx_transactionId = Some ''txn_7'', tx_status = Some ''failed''\<rparr>,
                         \<lparr>tx_transactionId = Some ''txn_42'', tx_status = Some ''Completed''\<rparr>]
      else example_page [\<lparr>tx_transactionId = Some ''txn_8'', tx_status = Some ''pending''\<rparr>])"

definition failing_remote :: remote where
  "failing_remote page = (if page = 2 then Inl Timeout else example_remote 1)"

text \<open>
  A store that holds one successful payment, and three events: a pending event for that
  payment, an event without an amount, and an event without a transaction id. The
  environment \<open>accepting_env data\<close> stands for a request whose signature is
  \<open>5f2a\<close>, the digest of its body, and whose body decodes to \<open>data\<close>.
\<close>

definition stored_success :: payment_store where
  "stored_success =
     Map.empty(''txn_1'' \<mapsto> \<lparr>status = ''success'', phone = ''254712345678'', amount = JInt 50\<rparr>)"

definition pending_event :: event where
  "pending_event =
     \<lparr>ev_event = Some ''payment.pending'',
      ev_data = Some \<lparr>ed_transactionId = Some ''txn_1'', ed_transaction_id = None,
                      ed_status = Some ''pending'', ed_phone = Some ''+254712345678'',
                      ed_amount = Some (JInt 50)\<rparr>\<rparr>"




section \<open>Properties of the status normalizer\<close>


lemma map_lipana_status_range:
  "map_lipana_status raw \<in> {''success'', ''failed'', ''pending''}"
  by (simp add: map_lipana_status_def Let_def)



text \<open>The statuses listed in the description of the normalizer.\<close>

lemma map_lipana_status_examples:
  "map_lipana_status ''SUCCESS'' = ''success''"
  "map_lipana_status ''Completed'' = ''success''"
  "map_lipana_status ''completed '' = ''success''"
  "map_lipana_status ''failed'' = ''failed''"
  "map_lipana_status ''FAILURE'' = ''failed''"
  "map_lipana_status ''cancelled'' = ''failed''"
  "map_lipana_status ''Canceled'' = ''failed''"
  "map_lipana_status '''' = ''pending''"
  "map_lipana_status ''weird_status'' = ''pending''"
  "map_lipana_status ''processing'' = ''pending''"
  by code_simp+

section \<open>Properties of the remote status fetcher\<close>

declare fetch_pages.simps [simp del]

lemma fetch_pages_done: "3 < page \<Longrightarrow> fetch_pages remote tid page = ([], Inr None)"
  by (subst fetch_pages.simps) simp

lemma fetch_pages_continue:
  "page \<le> 3 \<Longrightarrow> scan_continues remote tid page \<Longrightarrow>
   fetch_pages remote tid page =
     (page # fst (fetch_pages remote tid (page + 1)), snd (fetch_pages remote tid (page + 1)))"
  apply (subst fetch_pages.simps)
  apply (auto split: sum.splits data_json.splits list.splits option.splits prod.splits simp: scan_continues_def)
  done

lemma fetch_pages_stop:
  "page \<le> 3 \<Longrightarrow> \<not> scan_continues remote tid page \<Longrightarrow>
   fetch_pages remote tid page =
     ([page],
      case remote page of
        Inl exc \<Rightarrow> Inl exc
      | Inr resp \<Rightarrow>
          if \<not> ok resp then Inr None
          else (case page_items (resp_json resp) of
                  DataList items \<Rightarrow> Inr (map_option map_lipana_status (scan_items items tid))
                | _ \<Rightarrow> Inr None))"
  apply (subst fetch_pages.simps)
  apply (auto split: sum.splits data_json.splits list.splits option.splits prod.splits simp: scan_continues_def)
  done


lemma fetch_pages_status_range:
  "snd (fetch_pages remote tid page) = Inr (Some s) \<Longrightarrow> s \<in> {''success'', ''failed'', ''pending''}"
proof (induction "4 - page" arbitrary: page)
  case 0
  then have "3 < page" by simp
  with 0 show ?case by (simp add: fetch_pages_done)
next
  case (Suc n)
  then have le: "page \<le> 3" and n: "n = 4 - (page + 1)" by simp_all
  show ?case
  proof (cases "scan_continues remote tid page")
    case True
    from Suc.prems have "snd (fetch_pages remote tid (page + 1)) = Inr (Some s)"
      by (simp add: fetch_pages_continue[OF le True])
    from Suc.hyps(1)[OF n this] show ?thesis .
  next
    case False
    from Suc.prems obtain raw where "s = map_lipana_status raw"
      by (auto simp: fetch_pages_stop[OF le False] split: sum.splits if_splits data_json.splits)
    then show ?thesis using map_lipana_status_range by blast
  qed
qed

lemma fetch_pages_failure:
  "p \<in> set (fst (fetch_pages remote tid page)) \<Longrightarrow> request_fails (remote p) \<Longrightarrow>
   (case snd (fetch_pages remote tid page) of Inl exc \<Rightarrow> None | Inr r \<Rightarrow> r) = None"
proof (induction "4 - page" arbitrary: page)
  case 0
  then have "3 < page" by simp
  with 0 show ?case by (simp add: fetch_pages_done)
next
  case (Suc n)
  then have le: "page \<le> 3" and n: "n = 4 - (page + 1)" by simp_all
  show ?case
  proof (cases "scan_continues remote tid page")
    case True
    then have "\<not> request_fails (remote page)"
      by (auto simp: scan_continues_def request_fails_def split: sum.splits)
    with Suc.prems have "p \<in> set (fst (fetch_pages remote tid (page + 1)))"
      by (auto simp: fetch_pages_continue[OF le True])
    from Suc.hyps(1)[OF n this] Suc.prems show ?thesis
      by (simp add: fetch_pages_continue[OF le True])
  next
    case False
    from Suc.prems have "p = page" by (simp add: fetch_pages_stop[OF le False])
    with Suc.prems show ?thesis
      by (auto simp: fetch_pages_stop[OF le False] request_fails_def split: sum.splits)
  qed
qed

lemma fetch_pages_failure_last:
  "p \<in> set (fst (fetch_pages remote tid page)) \<Longrightarrow> request_fails (remote p) \<Longrightarrow>
   fst (fetch_pages remote tid page) = [page..<p + 1]"
proof (induction "4 - page" arbitrary: page)
  case 0
  then have "3 < page" by simp
  with 0 show ?case by (simp add: fetch_pages_done)
next
  case (Suc n)
  then have le: "page \<le> 3" and n: "n = 4 - (page + 1)" by simp_all
  show ?case
  proof (cases "scan_continues remote tid page")
    case True
    then have "\<not> request_fails (remote page)"
      by (auto simp: scan_continues_def request_fails_def split: sum.splits)
    with Suc.prems have m: "p \<in> set (fst (fetch_pages remote tid (page + 1)))"
      by (auto simp: fetch_pages_continue[OF le True])
    from Suc.hyps(1)[OF n m Suc.prems(2)]
    have ih: "fst (fetch_pages remote tid (page + 1)) = [page + 1..<p + 1]" .
    with m have "page + 1 \<le> p" by auto
    then have "[page..<p + 1] = page # [page + 1..<p + 1]"
      by (simp add: upt_conv_Cons del: upt_Suc)
    with ih show ?thesis
      by (simp add: fetch_pages_continue[OF le True] del: upt_Suc)
  next
    case False
    from Suc.prems have "p = page" by (simp add: fetch_pages_stop[OF le False])
    then show ?thesis by (simp add: fetch_pages_stop[OF le False])
  qed
qed




lemma fetch_pages_upt:
  "fst (fetch_pages remote tid page) = [page..<page + length (fst (fetch_pages remote tid page))]"
proof (induction "4 - page" arbitrary: page)
  case 0
  then have "3 < page" by simp
  then show ?case by (simp add: fetch_pages_done)
next
  case (Suc n)
  then have le: "page \<le> 3" and n: "n = 4 - (page + 1)" by simp_all
  show ?case
  proof (cases "scan_continues remote tid page")
    case True
    define rest where "rest = fst (fetch_pages remote tid (page + 1))"
    from Suc.hyps(1)[OF n] have ih: "rest = [Suc page..<Suc page + length rest]"
      by (simp add: rest_def del: upt_Suc)
    have "[page..<page + length (page # rest)] = page # [Suc page..<page + length (page # rest)]"
      by (rule upt_conv_Cons) simp
    also have "\<dots> = page # [Suc page..<Suc page + length rest]" by simp
    also have "\<dots> = page # rest" using ih by simp
    finally show ?thesis
      by (simp add: fetch_pages_continue[OF le True] rest_def del: upt_Suc)
  next
    case False
    with le show ?thesis by (simp add: fetch_pages_stop)
  qed
qed

lemma fst_fetch_lipana_status:
  "fst (fetch_lipana_status remote tid) = fst (fetch_pages remote tid 1)"
  by (cases "fetch_pages remote tid 1") (auto simp: fetch_lipana_status_def split: sum.splits)

lemma snd_fetch_lipana_status:
  "snd (fetch_lipana_status remote tid) =
     (case snd (fetch_pages remote tid 1) of Inl exc \<Rightarrow> None | Inr r \<Rightarrow> r)"
  by (cases "fetch_pages remote tid 1") (auto simp: fetch_lipana_status_def split: sum.splits)

lemma fetch_lipana_status_eq:
  "fetch_lipana_status remote tid =
     (fst (fetch_pages remote tid 1),
      case snd (fetch_pages remote tid 1) of Inl exc \<Rightarrow> None | Inr r \<Rightarrow> r)"
  using fst_fetch_lipana_status[of remote tid] snd_fetch_lipana_status[of remote tid]
  by (simp add: prod_eq_iff)

lemma fetch_lipana_status_range:
  "snd (fetch_lipana_status remote tid) = Some s \<Longrightarrow> s \<in> {''success'', ''failed'', ''pending''}"
  using fetch_pages_status_range[of remote tid 1 s]
  by (auto simp: snd_fetch_lipana_status split: sum.splits)



text \<open>
  Claim C4. Whenever a page the fetcher requests fails, by a timeout or a connection error
  raised by the request or by an HTTP status that is not a success, the fetcher stops at
  that page and returns \<open>None\<close>: the failure is absorbed and never reaches the caller.
\<close>

theorem fetch_lipana_status_absorbs_failures:
  assumes "p \<in> set (fst (fetch_lipana_status remote tid))" and "request_fails (remote p)"
  shows "fetch_lipana_status remote tid = ([1..<p + 1], None)"
proof -
  from assms(1) have m: "p \<in> set (fst (fetch_pages remote tid 1))"
    by (simp add: fst_fetch_lipana_status)
  from fetch_pages_failure[OF m assms(2)] fetch_pages_failure_last[OF m assms(2)]
  show ?thesis unfolding fetch_lipana_status_eq by (simp only:)
qed

theorem fetch_lipana_status_absorbs_failures_witness:
  "2 \<in> set (fst (fetch_lipana_status failing_remote ''txn_42''))
   \<and> request_fails (failing_remote 2)
   \<and> fetch_lipana_status failing_remote ''txn_42'' = ([1, 2], None)"
proof -
  have "fst (fetch_pages failing_remote ''txn_42'' 1) = [1, 2]"
    by code_simp
  then have m: "2 \<in> set (fst (fetch_lipana_status failing_remote ''txn_42''))"
    by (simp add: fst_fetch_lipana_status)
  have f: "request_fails (failing_remote 2)"
    by (simp add: request_fails_def failing_remote_def)
  have u: "[1..<2 + 1] = [1, 2::nat]" by (simp add: upt_conv_Cons)
  from m f fetch_lipana_status_absorbs_failures[OF m f] u show ?thesis by simp
qed

section \<open>Properties of status polling\<close>

lemma poll_while_pending_terminal:
  "payment_store tid = Some record \<Longrightarrow> status record \<noteq> ''pending'' \<Longrightarrow>
   snd (poll_while_pending payment_store tid record remote) = payment_store"
  by (auto simp: poll_while_pending_def)

lemma poll_while_pending_keep:
  "status record \<noteq> ''pending'' \<or> snd (fetch_lipana_status remote tid) = None
     \<or> snd (fetch_lipana_status remote tid) = Some ''pending'' \<Longrightarrow>
   poll_while_pending payment_store tid record remote =
     (Response 200 (JObj [(''status'', JStr (status record)), (''phone'', JStr (phone record)),
                          (''amount'', amount record)]),
      payment_store(tid \<mapsto> record))"
  by (auto simp: poll_while_pending_def)

lemma poll_while_pending_resolve:
  "status record = ''pending'' \<Longrightarrow> snd (fetch_lipana_status remote tid) = Some live \<Longrightarrow>
   live \<noteq> ''pending'' \<Longrightarrow>
   poll_while_pending payment_store tid record remote =
     (Response 200 (JObj [(''status'', JStr live), (''phone'', JStr (phone record)),
                          (''amount'', amount record)]),
      payment_store(tid \<mapsto> record\<lparr>status := live\<rparr>))"
  by (simp add: poll_while_pending_def)

lemma poll_while_pending_status:
  "\<exists>s. poll_while_pending payment_store tid record remote =
         (Response 200 (JObj [(''status'', JStr s), (''phone'', JStr (phone record)),
                              (''amount'', amount record)]),
          payment_store(tid \<mapsto> record\<lparr>status := s\<rparr>))
     \<and> (s = status record \<or> status record = ''pending'' \<and> s \<in> {''success'', ''failed''}
            \<and> snd (fetch_lipana_status remote tid) = Some s)"
proof (cases "status record \<noteq> ''pending'' \<or> snd (fetch_lipana_status remote tid) = None
     \<or> snd (fetch_lipana_status remote tid) = Some ''pending''")
  case True
  have "record\<lparr>status := status record\<rparr> = record" by simp
  with poll_while_pending_keep[OF True] show ?thesis
    by (intro exI[of _ "status record"]) simp
next
  case False
  then obtain live where l: "status record = ''pending''"
      "snd (fetch_lipana_status remote tid) = Some live" "live \<noteq> ''pending''"
    by (cases "snd (fetch_lipana_status remote tid)") auto
  from fetch_lipana_status_range[OF l(2)] l(3) have "live \<in> {''success'', ''failed''}" by auto
  with poll_while_pending_resolve[OF l] l show ?thesis
    by (intro exI[of _ live]) simp
qed

text \<open>
  Claim C7. For a tracking id that is not in the store: when the fetcher returns nothing,
  the answer is 404 with the body \<open>{status: not_found}\<close> and the store is unchanged;
  when it returns a status, the handler goes on exactly as a poll of the store in which the
  id holds a new record with that status, the phone \<open>Recovered\<close> and the amount 0, and
  the answer is 200 with the fields of the record then in the store. That record has the
  fetched status, unless the status is pending and the refresh that follows finds a success
  or a failure.
\<close>

theorem check_status_unknown_id:
  assumes "payment_store tid = None"
  shows "(snd (fetch_lipana_status remote tid) = None \<longrightarrow>
            check_status payment_store tid remote remote' =
              (Response 404 (JObj [(''status'', JStr ''not_found'')]), payment_store))
    \<and> (\<forall>live. snd (fetch_lipana_status remote tid) = Some live \<longrightarrow>
          check_status payment_store tid remote remote' =
            check_status
              (payment_store(tid \<mapsto> \<lparr>status = live, phone = ''Recovered'', amount = JInt 0\<rparr>))
              tid remote' remote''
          \<and> (\<exists>s. check_status payment_store tid remote remote' =
                  (Response 200 (JObj [(''status'', JStr s), (''phone'', JStr ''Recovered''),
                                       (''amount'', JInt 0)]),
                   payment_store(tid \<mapsto> \<lparr>status = s, phone = ''Recovered'', amount = JInt 0\<rparr>))
                \<and> (s = live \<or> live = ''pending'' \<and> s \<in> {''success'', ''failed''}
                      \<and> snd (fetch_lipana_status remote' tid) = Some s))
          \<and> (live \<noteq> ''pending'' \<or> snd (fetch_lipana_status remote' tid) = None
                \<or> snd (fetch_lipana_status remote' tid) = Some ''pending'' \<longrightarrow>
              check_status payment_store tid remote remote' =
                (Response 200 (JObj [(''status'', JStr live), (''phone'', JStr ''Recovered''),
                                     (''amount'', JInt 0)]),
                 payment_store(tid \<mapsto> \<lparr>status = live, phone = ''Recovered'', amount = JInt 0\<rparr>))))"
proof -
  have nf: "check_status payment_store tid remote remote' =
              (Response 404 (JObj [(''status'', JStr ''not_found'')]), payment_store)"
    if "snd (fetch_lipana_status remote tid) = None"
    using that assms by (simp add: check_status_def)
  have found: "check_status payment_store tid remote remote' =
            check_status
              (payment_store(tid \<mapsto> \<lparr>status = live, phone = ''Recovered'', amount = JInt 0\<rparr>))
              tid remote' remote''
          \<and> (\<exists>s. check_status payment_store tid remote remote' =
                  (Response 200 (JObj [(''status'', JStr s), (''phone'', JStr ''Recovered''),
                                       (''amount'', JInt 0)]),
                   payment_store(tid \<mapsto> \<lparr>status = s, phone = ''Recovered'', amount = JInt 0\<rparr>))
                \<and> (s = live \<or> live = ''pending'' \<and> s \<in> {''success'', ''failed''}
                      \<and> snd (fetch_lipana_status remote' tid) = Some s))
          \<and> (live \<noteq> ''pending'' \<or> snd (fetch_lipana_status remote' tid) = None
                \<or> snd (fetch_lipana_status remote' tid) = Some ''pending'' \<longrightarrow>
              check_status payment_store tid remote remote' =
                (Response 200 (JObj [(''status'', JStr live), (''phone'', JStr ''Recovered''),
                                     (''amount'', JInt 0)]),
                 payment_store(tid \<mapsto> \<lparr>status = live, phone = ''Recovered'', amount = JInt 0\<rparr>)))"
    if l: "snd (fetch_lipana_status remote tid) = Some live" for live
  proof -
    let ?rec = "\<lparr>status = live, phone = ''Recovered'', amount = JInt 0\<rparr>"
    let ?store = "payment_store(tid \<mapsto> ?rec)"
    have cs: "check_status payment_store tid remote remote' =
        poll_while_pending ?store tid ?rec remote'"
      using l assms by (simp add: check_status_def Let_def)
    have cs': "check_status ?store tid remote' remote'' = poll_while_pending ?store tid ?rec remote'"
      by (simp add: check_status_def)
    from poll_while_pending_status[of ?store tid ?rec remote']
    have a: "\<exists>s. check_status payment_store tid remote remote' =
                  (Response 200 (JObj [(''status'', JStr s), (''phone'', JStr ''Recovered''),
                                       (''amount'', JInt 0)]),
                   payment_store(tid \<mapsto> \<lparr>status = s, phone = ''Recovered'', amount = JInt 0\<rparr>))
                \<and> (s = live \<or> live = ''pending'' \<and> s \<in> {''success'', ''failed''}
                      \<and> snd (fetch_lipana_status remote' tid) = Some s)"
      unfolding cs by simp
    have b: "check_status payment_store tid remote remote' =
                (Response 200 (JObj [(''status'', JStr live), (''phone'', JStr ''Recovered''),
                                     (''amount'', JInt 0)]),
                 payment_store(tid \<mapsto> \<lparr>status = live, phone = ''Recovered'', amount = JInt 0\<rparr>))"
      if "live \<noteq> ''pending'' \<or> snd (fetch_lipana_status remote' tid) = None
                \<or> snd (fetch_lipana_status remote' tid) = Some ''pending''"
      using poll_while_pending_keep[of ?rec remote' tid ?store] that unfolding cs by simp
    from cs cs' a b show ?thesis by simp
  qed
  from nf found show ?thesis by blast
qed

theorem check_status_unknown_id_witness:
  "check_status Map.empty ''txn_42'' example_remote example_remote =
     (Response 200 (JObj [(''status'', JStr ''success''), (''phone'', JStr ''Recovered''),
                          (''amount'', JInt 0)]),
      Map.empty(''txn_42'' \<mapsto> \<lparr>status = ''success'', phone = ''Recovered'', amount = JInt 0\<rparr>))
   \<and> check_status Map.empty ''txn_42'' failing_remote example_remote =
     (Response 404 (JObj [(''status'', JStr ''not_found'')]), Map.empty)"
proof -
  have f: "snd (fetch_lipana_status example_remote ''txn_42'') = Some ''success''" by code_simp
  have g: "snd (fetch_lipana_status failing_remote ''txn_42'') = None" by code_simp
  have e: "(Map.empty :: payment_store) ''txn_42'' = None" by simp
  from check_status_unknown_id[where payment_store = Map.empty and tid = "''txn_42''"
      and remote = example_remote and remote' = example_remote, OF e] f
    check_status_unknown_id[where payment_store = Map.empty and tid = "''txn_42''"
      and remote = failing_remote and remote' = example_remote, OF e] g
  show ?thesis by simp
qed

section \<open>Properties of the webhook\<close>

lemma update_payment_store_idem:
  "update_payment_store (update_payment_store payment_store tid resolved event_data)
     tid resolved event_data =
   update_payment_store payment_store tid resolved event_data"
  by (auto simp: update_payment_store_def split: option.splits)

lemma apply_event_idem: "apply_event (apply_event payment_store data) data = apply_event payment_store data"
  by (simp add: apply_event_def Let_def update_payment_store_idem)

text \<open>
  Claim C8. Webhook ingestion is idempotent: the same request delivered a second time gets
  the same answer and leaves the store as the first delivery left it, and applying the same
  event twice gives the store that applying it once gives.
\<close>

theorem webhook_idempotent:
  "webhook env (snd (webhook env payment_store header raw_payload)) header raw_payload =
   webhook env payment_store header raw_payload
   \<and> apply_event (apply_event payment_store data) data = apply_event payment_store data"
  by (auto simp: webhook_def Let_def apply_event_idem split: sum.splits bool.splits exn.splits)








text \<open>
  Claim C1, as amended. For a tracking id in the store, a status poll changes the stored
  status only from pending to success or failed, and leaves the store as it is when the
  status is success or failed. Webhook ingestion has no such guard: an event for that id
  sets the stored status to the normalized status of the event, whatever it was.
\<close>

theorem poll_keeps_terminal_webhook_overwrites:
  assumes "payment_store tid = Some record"
  shows "(status record \<in> {''success'', ''failed''} \<longrightarrow>
            snd (check_status payment_store tid remote remote') = payment_store)
    \<and> (\<exists>s. snd (check_status payment_store tid remote remote') =
              payment_store(tid \<mapsto> record\<lparr>status := s\<rparr>)
          \<and> (s = status record \<or> status record = ''pending'' \<and> s \<in> {''success'', ''failed''}))
    \<and> (event_transaction_id data = tid \<longrightarrow>
          apply_event payment_store data =
            payment_store(tid \<mapsto> record\<lparr>status := event_status data\<rparr>))"
proof -
  have cs: "check_status payment_store tid remote remote' =
      poll_while_pending payment_store tid record remote"
    using assms by (simp add: check_status_def)
  have a: "snd (check_status payment_store tid remote remote') = payment_store"
    if "status record \<in> {''success'', ''failed''}"
  proof -
    from that have "status record \<noteq> ''pending''" by auto
    with assms show ?thesis by (simp add: cs poll_while_pending_terminal)
  qed
  have b: "\<exists>s. snd (check_status payment_store tid remote remote') =
              payment_store(tid \<mapsto> record\<lparr>status := s\<rparr>)
          \<and> (s = status record \<or> status record = ''pending'' \<and> s \<in> {''success'', ''failed''})"
    using poll_while_pending_status[of payment_store tid "record" remote] unfolding cs
    by (metis snd_conv)
  have c: "apply_event payment_store data =
            payment_store(tid \<mapsto> record\<lparr>status := event_status data\<rparr>)"
    if "event_transaction_id data = tid"
    using that assms by (simp add: apply_event_def update_payment_store_def)
  from a b c show ?thesis by blast
qed

theorem poll_keeps_terminal_webhook_overwrites_witness:
  "stored_success ''txn_1'' = Some \<lparr>status = ''success'', phone = ''254712345678'', amount = JInt 50\<rparr>
   \<and> snd (check_status stored_success ''txn_1'' example_remote failing_remote) = stored_success
   \<and> apply_event stored_success pending_event =
       stored_success(''txn_1'' \<mapsto> \<lparr>status = ''pending'', phone = ''254712345678'', amount = JInt 50\<rparr>)"
proof -
  have h: "stored_success ''txn_1'' =
      Some \<lparr>status = ''success'', phone = ''254712345678'', amount = JInt 50\<rparr>"
    by (simp add: stored_success_def)
  have t: "event_transaction_id pending_event = ''txn_1''" by code_simp
  have e: "event_status pending_event = ''pending''" by code_simp
  from poll_keeps_terminal_webhook_overwrites[where payment_store = stored_success
      and tid = "''txn_1''" and remote = example_remote and remote' = failing_remote
      and data = pending_event, OF h] h t e
  show ?thesis by simp
qed


text \<open>
  Claim C1 as stated fails: a pending event for a payment recorded as a success sets its
  status back to pending.
\<close>

theorem webhook_pending_after_success:
  "map_option status (stored_success ''txn_1'') = Some ''success''
   \<and> map_option status (apply_event stored_success pending_event ''txn_1'') = Some ''pending''"
  by code_simp

text \<open>
  What the handler does with a request it rejects: the answers 401 and 400, and the store
  untouched whenever the answer is not 200.
\<close>

lemma webhook_missing_signature:
  "header = None \<or> header = Some [] \<Longrightarrow>
   webhook env payment_store header raw_payload =
     (Inr (Response 401 (JObj [(''error'', JStr ''Missing signature'')])), payment_store)"
  by (auto simp: webhook_def get_default_def)

lemma webhook_invalid_signature:
  "signature \<noteq> [] \<Longrightarrow> isascii signature \<Longrightarrow>
   isascii (hmac_sha256_hexdigest env (LIPANA_WEBHOOK_SECRET env) raw_payload) \<Longrightarrow>
   signature \<noteq> hmac_sha256_hexdigest env (LIPANA_WEBHOOK_SECRET env) raw_payload \<Longrightarrow>
   webhook env payment_store (Some signature) raw_payload =
     (Inr (Response 401 (JObj [(''error'', JStr ''Invalid signature'')])), payment_store)"
  by (simp add: webhook_def get_default_def verify_webhook_signature_def compare_digest_def)

lemma webhook_invalid_json:
  "signature \<noteq> [] \<Longrightarrow> verify_webhook_signature env raw_payload signature = Inr True \<Longrightarrow>
   json_loads env raw_payload = Inl JSONDecodeError \<Longrightarrow>
   webhook env payment_store (Some signature) raw_payload =
     (Inr (Response 400 (JObj [(''error'', JStr ''Invalid JSON'')])), payment_store)"
  by (simp add: webhook_def get_default_def)

lemma webhook_store_unchanged:
  "fst (webhook env payment_store header raw_payload) \<noteq>
     Inr (Response 200 (JObj [(''received'', JBool True)])) \<Longrightarrow>
   snd (webhook env payment_store header raw_payload) = payment_store"
  by (auto simp: webhook_def Let_def split: sum.splits bool.splits exn.splits if_splits)

text \<open>
  Claim C5 at a signature with a character that is not ASCII: \<^verbatim>\<open>hmac.compare_digest\<close>
  raises \<^verbatim>\<open>TypeError\<close>, nothing catches it, and the request ends in the exception
  instead of the answer 401. The store is unchanged.
\<close>

theorem webhook_non_ascii_signature:
  "webhook env payment_store (Some [CHR 0xE9]) raw_payload = (Inl TypeError, payment_store)"
  by (simp add: webhook_def get_default_def verify_webhook_signature_def compare_digest_def
      isascii_def)

section \<open>Properties of payment initiation\<close>

text \<open>
  What the validation of \<^verbatim>\<open>initiate_payment\<close> does before any outbound call.
\<close>

lemma initiate_payment_invalid_input:
  assumes "strip (py_str lib (get_default (pb_phone body) (JStr []))) = []
      \<or> \<not> truthy (get_default (pb_amount body) JNull)
      \<or> int_float lib (get_default (pb_amount body) JNull) = Inl ValueError
      \<or> int_float lib (get_default (pb_amount body) JNull) = Inl TypeError
      \<or> (\<exists>n. int_float lib (get_default (pb_amount body) JNull) = Inr n \<and> n < 10)"
  shows "\<exists>msg. initiate_payment lib post_push_stk payment_store body =
      (Inr (Response 400 (JObj [(''error'', JStr msg)])), payment_store, [])"
  using assms by (auto simp: initiate_payment_def Let_def)

lemma initiate_payment_amount_overflow:
  "strip (py_str lib (get_default (pb_phone body) (JStr []))) \<noteq> [] \<Longrightarrow>
   truthy (get_default (pb_amount body) JNull) \<Longrightarrow>
   int_float lib (get_default (pb_amount body) JNull) = Inl OverflowError \<Longrightarrow>
   initiate_payment lib post_push_stk payment_store body = (Inl OverflowError, payment_store, [])"
  by (simp add: initiate_payment_def Let_def)

text \<open>
  Claim C6 at an infinite amount (the JSON number \<open>-1e999\<close> decodes to the float
  \<open>-inf\<close>): \<^verbatim>\<open>int(float(amount))\<close> raises \<^verbatim>\<open>OverflowError\<close>, which the
  handler does not catch, and the request ends in the exception instead of the answer 400.
  No outbound call is made and the store is unchanged.
\<close>

theorem initiate_payment_infinite_amount:
  "initiate_payment lib post_push_stk payment_store
     \<lparr>pb_phone = Some (JStr ''0712345678''), pb_amount = Some (JFloat NegInf)\<rparr> =
   (Inl OverflowError, payment_store, [])"
  by (simp add: initiate_payment_def get_default_def py_str_def strip_def lstrip_def rstrip_def
      isspace_def int_float_def py_float_def py_int_def)

end
